theory Spec2Isabelle
  imports Complex_Main "HOL-Library.Word"
begin

unbundle bit_operations_syntax

section \<open>The exchange-rate cooker: data model\<close>

text \<open>
  The program is \<open>app/main.go\<close>: a scheduled job that, for every configured base
  currency, looks the day's record up in a DynamoDB table, fetches the rates over HTTP
  when there is none, and writes them back. Everything the job touches outside its own
  memory (the table, the rate provider, the clock, the process environment) is a value
  here: the table is a map, the outcome of each external call is asked of an environment
  that sees every call made so far, and each function returns the world it leaves.

  A \<open>float64\<close> rate is only decoded, stored and read back, never computed with, so it is
  the real number it denotes. Go's \<open>int\<close> counters count list elements and cannot
  overflow; they are \<open>nat\<close>. A Go \<open>string\<close> is a sequence of bytes, as \<open>string\<close> is.
\<close>

type_synonym float64 = real

text \<open>\<open>time.Time\<close>, as the calendar day and the nanosecond of the day it denotes.\<close>

record Time =
  year :: nat
  month :: nat
  day :: nat
  nanosecond :: nat

text \<open>The zero \<open>time.Time\<close>: January 1, year 1, 00:00:00 UTC.\<close>

definition zeroTime :: Time where
  "zeroTime = \<lparr>year = 1, month = 1, day = 1, nanosecond = 0\<rparr>"

definition IsZero :: "Time \<Rightarrow> bool" where
  "IsZero t = (t = zeroTime)"

record ExchangeRateResponse =
  Result :: string
  BaseCode :: string
  ConversionRates :: "string \<rightharpoonup> float64"

record ExchangeRateRecord =
  Key :: string
  SortKey :: string
  ExchangeRates :: "string \<rightharpoonup> float64"
  UpdatedAt :: Time

record SupportedCurrenciesRecord =
  scKey :: string
  scSortKey :: string
  SupportedCurrencies :: "string list"
  scUpdatedAt :: Time

text \<open>The package-level variables \<open>tableName\<close>, \<open>apiKey\<close> and \<open>supportedCurrencies\<close>.\<close>

record config =
  tableName :: string
  apiKey :: string
  supportedCurrencies :: "string list"

text \<open>One constructor for each error the program makes, in the order of the source.\<close>

datatype error =
    SdkConfigFatal
  | TableNameFatal
  | AllUpdatesFailed nat
  | BaseCurrencyLength
  | BaseCurrencyNotUpper
  | FetchFailed
  | ApiStatus nat
  | DecodeFailed
  | ApiResult string
  | KeyMarshalFailed string
  | CheckFailed string string
  | UnmarshalFailed string
  | RecordMarshalFailed string
  | StoreFailed string
  | CurrenciesMarshalFailed
  | CurrenciesStoreFailed

text \<open>
  The two validation errors of \<open>fetchExchangeRates\<close>, returned before the URL is built.
\<close>

fun is_validation_error :: "error \<Rightarrow> bool" where
  "is_validation_error BaseCurrencyLength = True"
| "is_validation_error BaseCurrencyNotUpper = True"
| "is_validation_error _ = False"

section \<open>Library functions the program calls\<close>

subsection \<open>\<open>strings.Split\<close> with a one-byte separator\<close>

fun IndexByte :: "string \<Rightarrow> char \<Rightarrow> nat option" where
  "IndexByte [] c = None"
| "IndexByte (x # xs) c =
     (if x = c then Some 0 else map_option Suc (IndexByte xs c))"

lemma IndexByte_less: "IndexByte s c = Some m \<Longrightarrow> m < length s"
  by (induction s arbitrary: m) (auto split: if_splits)

text \<open>
  \<open>genSplit\<close> with \<open>n < 0\<close>: cut at every separator, keep what is left as the last
  segment.
\<close>

function Split :: "string \<Rightarrow> char \<Rightarrow> string list" where
  "Split s sep =
     (case IndexByte s sep of
        None \<Rightarrow> [s]
      | Some m \<Rightarrow> take m s # Split (drop (m + 1) s) sep)"
  by pat_completeness auto
termination
  by (relation "measure (\<lambda>(s, sep). length s)") (auto dest: IndexByte_less)

declare Split.simps [simp del]

text \<open>\<open>strings.Join\<close>, the inverse the segments are measured against.\<close>

fun Join :: "string list \<Rightarrow> char \<Rightarrow> string" where
  "Join [] sep = []"
| "Join [x] sep = x"
| "Join (x # y # ys) sep = x @ sep # Join (y # ys) sep"

subsection \<open>Ranging over a string: UTF-8 decoding\<close>

text \<open>
  \<open>for _, r := range s\<close> yields runes, not bytes: a byte below \<open>0x80\<close> is its own
  rune, anything else goes through the runtime's \<open>decoderune\<close>, which returns the rune
  and its width, or \<open>RuneError\<close> and width 1 for a sequence that is truncated, overlong,
  a surrogate, or out of range.
\<close>

type_synonym byte = "8 word"
type_synonym rune = int

definition byte_of :: "char \<Rightarrow> byte" where
  "byte_of c = of_char c"

definition RuneError :: rune where
  "RuneError = 0xFFFD"

definition cb :: "byte \<Rightarrow> bool" where
  "cb b = (0x80 \<le> b \<and> b \<le> 0xBF)"

definition low_bits :: "byte \<Rightarrow> byte \<Rightarrow> rune" where
  "low_bits b m = uint (b AND m)"

fun decoderune :: "byte list \<Rightarrow> rune \<times> nat" where
  "decoderune [] = (RuneError, 1)"
| "decoderune (b0 # bs) =
     (if 0xC0 \<le> b0 \<and> b0 < 0xE0 then
        (case bs of
           b1 # _ \<Rightarrow>
             (let r = push_bit 6 (low_bits b0 0x1F) OR low_bits b1 0x3F
              in if cb b1 \<and> 0x7F < r then (r, 2) else (RuneError, 1))
         | _ \<Rightarrow> (RuneError, 1))
      else if 0xE0 \<le> b0 \<and> b0 < 0xF0 then
        (case bs of
           b1 # b2 # _ \<Rightarrow>
             (let r = push_bit 12 (low_bits b0 0x0F) OR push_bit 6 (low_bits b1 0x3F)
                        OR low_bits b2 0x3F
              in if cb b1 \<and> cb b2 \<and> 0x7FF < r \<and> \<not> (0xD800 \<le> r \<and> r \<le> 0xDFFF)
                 then (r, 3) else (RuneError, 1))
         | _ \<Rightarrow> (RuneError, 1))
      else if 0xF0 \<le> b0 \<and> b0 < 0xF8 then
        (case bs of
           b1 # b2 # b3 # _ \<Rightarrow>
             (let r = push_bit 18 (low_bits b0 0x07) OR push_bit 12 (low_bits b1 0x3F)
                        OR push_bit 6 (low_bits b2 0x3F) OR low_bits b3 0x3F
              in if cb b1 \<and> cb b2 \<and> cb b3 \<and> 0xFFFF < r \<and> r \<le> 0x10FFFF
                 then (r, 4) else (RuneError, 1))
         | _ \<Rightarrow> (RuneError, 1))
      else (RuneError, 1))"

text \<open>One step of the range loop: the next rune and how many bytes it took.\<close>

definition next_rune :: "byte list \<Rightarrow> rune \<times> nat" where
  "next_rune bs =
     (case bs of
        [] \<Rightarrow> (RuneError, 1)
      | b0 # _ \<Rightarrow> if b0 < 0x80 then (uint b0, 1) else decoderune bs)"

lemma next_rune_width: "0 < snd (next_rune bs)"
  by (cases bs; cases "tl bs"; cases "tl (tl bs)"; cases "tl (tl (tl bs))")
     (auto simp: next_rune_def Let_def)

function range_runes :: "byte list \<Rightarrow> rune list" where
  "range_runes bs =
     (if bs = [] then []
      else fst (next_rune bs) # range_runes (drop (snd (next_rune bs)) bs))"
  by pat_completeness auto
termination
  by (relation "measure length") (auto simp: next_rune_width)

declare range_runes.simps [simp del]

definition runes :: "string \<Rightarrow> rune list" where
  "runes s = range_runes (map byte_of s)"

subsection \<open>\<open>time.Format("2006-01-02")\<close>\<close>

definition digit_char :: "nat \<Rightarrow> char" where
  "digit_char d = char_of (48 + d)"

function utoa :: "nat \<Rightarrow> string" where
  "utoa n = (if n < 10 then [digit_char n] else utoa (n div 10) @ [digit_char (n mod 10)])"
  by pat_completeness auto
termination
  by (relation "measure id") auto

declare utoa.simps [simp del]

text \<open>\<open>appendInt\<close>: the decimal digits, padded with zeros to the width.\<close>

definition appendInt :: "nat \<Rightarrow> nat \<Rightarrow> string" where
  "appendInt x width = replicate (width - length (utoa x)) CHR ''0'' @ utoa x"

definition FormatDate :: "Time \<Rightarrow> string" where
  "FormatDate t =
     appendInt (year t) 4 @ ''-'' @ appendInt (month t) 2 @ ''-'' @ appendInt (day t) 2"

section \<open>The world outside the program\<close>

text \<open>
  An item of the table is the attribute map that \<open>attributevalue.MarshalMap\<close> makes of a
  record; the model keeps the record it encodes. \<open>ForeignItem\<close> stands for an item
  under the given key that does not decode into an \<open>ExchangeRateRecord\<close>.
\<close>

type_synonym key = "string \<times> string"

datatype item =
    ExchangeRateItem ExchangeRateRecord
  | SupportedCurrenciesItem SupportedCurrenciesRecord
  | ForeignItem key

text \<open>The table's primary key: the attributes \<open>Key\<close> and \<open>SortKey\<close> of the item.\<close>

fun item_key :: "item \<Rightarrow> key" where
  "item_key (ExchangeRateItem r) = (Key r, SortKey r)"
| "item_key (SupportedCurrenciesItem r) = (scKey r, scSortKey r)"
| "item_key (ForeignItem k) = k"

text \<open>The calls that leave the process, in the order they are made.\<close>

datatype call =
    GetItemCall key
  | PutItemCall item
  | HttpGetCall string

text \<open>
  What \<open>http.Get\<close> and \<open>json.Decode\<close> make of the provider's answer: no answer at all,
  or a status code with a body that either fails to decode or decodes into an
  \<open>ExchangeRateResponse\<close> (a field the body lacks is left at its zero value).
\<close>

datatype http_body = Malformed | Json ExchangeRateResponse

datatype http_result = TransportError | Response nat http_body

text \<open>
  The environment decides the outcome of every external call from the history of calls
  up to and including that one, and reads the clock from the history so far. Any pattern
  of failures is some environment.
\<close>

record env =
  clock :: "call list \<Rightarrow> Time"
  get_fails :: "call list \<Rightarrow> bool"
  put_fails :: "call list \<Rightarrow> bool"
  provider :: "call list \<Rightarrow> http_result"

record world =
  table :: "key \<rightharpoonup> item"
  calls :: "call list"

definition time_Now :: "env \<Rightarrow> world \<Rightarrow> Time" where
  "time_Now e w = clock e (calls w)"

text \<open>\<open>dynamoClient.GetItem\<close>: an error, or the item under the key, if any.\<close>

definition GetItem :: "env \<Rightarrow> key \<Rightarrow> world \<Rightarrow> item option option \<times> world" where
  "GetItem e k w =
     (let h = calls w @ [GetItemCall k]
      in (if get_fails e h then None else Some (table w k), w\<lparr>calls := h\<rparr>))"

text \<open>\<open>dynamoClient.PutItem\<close>: an error, or the item stored under its key.\<close>

definition PutItem :: "env \<Rightarrow> item \<Rightarrow> world \<Rightarrow> bool \<times> world" where
  "PutItem e it w =
     (let h = calls w @ [PutItemCall it]
      in if put_fails e h then (False, w\<lparr>calls := h\<rparr>)
         else (True, w\<lparr>calls := h, table := (table w)(item_key it \<mapsto> it)\<rparr>))"

definition http_Get :: "env \<Rightarrow> string \<Rightarrow> world \<Rightarrow> http_result \<times> world" where
  "http_Get e url w =
     (let h = calls w @ [HttpGetCall url] in (provider e h, w\<lparr>calls := h\<rparr>))"

text \<open>
  \<open>attributevalue.MarshalMap\<close> and \<open>UnmarshalMap\<close>. Marshalling the three shapes the
  program marshals (two strings; strings, a map of numbers and a time; strings, a list
  of strings and a time) has no failing case. Unmarshalling into an
  \<open>ExchangeRateRecord\<close> leaves a field without an attribute at its zero value and
  ignores an attribute without a field.
\<close>

definition MarshalMap_key :: "string \<Rightarrow> string \<Rightarrow> key option" where
  "MarshalMap_key k sk = Some (k, sk)"

definition MarshalMap_record :: "ExchangeRateRecord \<Rightarrow> item option" where
  "MarshalMap_record r = Some (ExchangeRateItem r)"

definition MarshalMap_currencies :: "SupportedCurrenciesRecord \<Rightarrow> item option" where
  "MarshalMap_currencies r = Some (SupportedCurrenciesItem r)"

fun UnmarshalMap :: "item \<Rightarrow> ExchangeRateRecord option" where
  "UnmarshalMap (ExchangeRateItem r) = Some r"
| "UnmarshalMap (SupportedCurrenciesItem r) =
     Some \<lparr>Key = scKey r, SortKey = scSortKey r, ExchangeRates = Map.empty,
           UpdatedAt = scUpdatedAt r\<rparr>"
| "UnmarshalMap (ForeignItem k) = None"

section \<open>The program\<close>

subsection \<open>\<open>init\<close>\<close>

definition defaultCurrencies :: "string list" where
  "defaultCurrencies =
     [''EUR'', ''GBP'', ''CHF'', ''SEK'', ''NOK'', ''DKK'', ''PLN'', ''CZK'', ''HUF'',
      ''RON'', ''UAH'', ''BYN'', ''RUB'']"

text \<open>
  \<open>getenv\<close> is \<open>os.Getenv\<close> (the empty string for an unset variable); \<open>sdk_ok\<close> says
  whether \<open>config.LoadDefaultConfig\<close> succeeded. \<open>logrus.Fatal\<close> ends the process: the
  error result.
\<close>

definition init :: "(string \<Rightarrow> string) \<Rightarrow> bool \<Rightarrow> error + config" where
  "init getenv sdk_ok =
     (if \<not> sdk_ok then Inl SdkConfigFatal
      else
        let tn = getenv ''EXCHANGE_RATE_DB_NAME'';
            ak = getenv ''EXCHANGE_RATE_API_KEY'';
            supportedCurrenciesStr = getenv ''SUPPORTED_CURRENCIES'';
            sc = (if supportedCurrenciesStr \<noteq> []
                  then Split supportedCurrenciesStr CHR ''|''
                  else defaultCurrencies)
        in if tn = [] then Inl TableNameFatal
           else Inr \<lparr>tableName = tn, apiKey = ak, supportedCurrencies = sc\<rparr>)"

subsection \<open>\<open>fetchExchangeRates\<close>\<close>

definition request_url :: "config \<Rightarrow> string \<Rightarrow> string" where
  "request_url cfg baseCurrency =
     (if apiKey cfg \<noteq> []
      then ''https://v6.exchangerate-api.com/v6/'' @ apiKey cfg @ ''/latest/'' @ baseCurrency
      else ''https://api.exchangerate-api.com/v4/latest/'' @ baseCurrency)"

definition fetchExchangeRates ::
  "env \<Rightarrow> config \<Rightarrow> string \<Rightarrow> world \<Rightarrow> (error + ExchangeRateResponse) \<times> world" where
  "fetchExchangeRates e cfg baseCurrency w =
     (if length baseCurrency \<noteq> 3 then (Inl BaseCurrencyLength, w)
      else if list_ex (\<lambda>r. r < of_char CHR ''A'' \<or> r > of_char CHR ''Z'') (runes baseCurrency)
      then (Inl BaseCurrencyNotUpper, w)
      else
        (case http_Get e (request_url cfg baseCurrency) w of
           (TransportError, w1) \<Rightarrow> (Inl FetchFailed, w1)
         | (Response status body, w1) \<Rightarrow>
             if status \<noteq> 200 then (Inl (ApiStatus status), w1)
             else
               (case body of
                  Malformed \<Rightarrow> (Inl DecodeFailed, w1)
                | Json exchangeRates \<Rightarrow>
                    if Result exchangeRates \<noteq> [] \<and> Result exchangeRates \<noteq> ''success''
                    then (Inl (ApiResult (Result exchangeRates)), w1)
                    else (Inr exchangeRates, w1))))"

subsection \<open>\<open>checkExistingExchangeRates\<close>\<close>

definition checkExistingExchangeRates ::
  "env \<Rightarrow> string \<Rightarrow> string \<Rightarrow> world \<Rightarrow> (error + ExchangeRateRecord option) \<times> world" where
  "checkExistingExchangeRates e baseCurrency date w =
     (case MarshalMap_key baseCurrency date of
        None \<Rightarrow> (Inl (KeyMarshalFailed baseCurrency), w)
      | Some keyItem \<Rightarrow>
          (case GetItem e keyItem w of
             (None, w1) \<Rightarrow> (Inl (CheckFailed baseCurrency date), w1)
           | (Some None, w1) \<Rightarrow> (Inr None, w1)
           | (Some (Some it), w1) \<Rightarrow>
               (case UnmarshalMap it of
                  None \<Rightarrow> (Inl (UnmarshalFailed baseCurrency), w1)
                | Some record \<Rightarrow> (Inr (Some record), w1))))"

subsection \<open>\<open>storeExchangeRates\<close> and \<open>storeSupportedCurrencies\<close>\<close>

definition storeExchangeRates ::
  "env \<Rightarrow> string \<Rightarrow> string \<Rightarrow> ExchangeRateResponse \<Rightarrow> world \<Rightarrow> error option \<times> world" where
  "storeExchangeRates e baseCurrency date rates w =
     (let record = \<lparr>Key = baseCurrency, SortKey = date,
                     ExchangeRates = ConversionRates rates, UpdatedAt = time_Now e w\<rparr>
      in case MarshalMap_record record of
           None \<Rightarrow> (Some (RecordMarshalFailed baseCurrency), w)
         | Some it \<Rightarrow>
             (case PutItem e it w of
                (False, w1) \<Rightarrow> (Some (StoreFailed baseCurrency), w1)
              | (True, w1) \<Rightarrow> (None, w1)))"

definition storeSupportedCurrencies :: "env \<Rightarrow> config \<Rightarrow> world \<Rightarrow> error option \<times> world" where
  "storeSupportedCurrencies e cfg w =
     (let record = \<lparr>scKey = ''SupportedCurrencies'', scSortKey = ''-'',
                     SupportedCurrencies = supportedCurrencies cfg,
                     scUpdatedAt = time_Now e w\<rparr>
      in case MarshalMap_currencies record of
           None \<Rightarrow> (Some CurrenciesMarshalFailed, w)
         | Some it \<Rightarrow>
             (case PutItem e it w of
                (False, w1) \<Rightarrow> (Some CurrenciesStoreFailed, w1)
              | (True, w1) \<Rightarrow> (None, w1)))"

subsection \<open>\<open>handler\<close>\<close>

record counters =
  successCount :: nat
  errorCount :: nat
  skippedCount :: nat

text \<open>
  The body of the loop over \<open>supportedCurrencies\<close>, for one \<open>baseCurrency\<close>: every
  \<open>continue\<close> is the end of the body.
\<close>

definition loop_body ::
  "env \<Rightarrow> config \<Rightarrow> string \<Rightarrow> string \<Rightarrow> counters \<times> world \<Rightarrow> counters \<times> world" where
  "loop_body e cfg currentDate baseCurrency s =
     (case s of (n, w) \<Rightarrow>
        (case checkExistingExchangeRates e baseCurrency currentDate w of
           (Inl err, w1) \<Rightarrow> (n\<lparr>errorCount := errorCount n + 1\<rparr>, w1)
         | (Inr (Some existingRecord), w1) \<Rightarrow> (n\<lparr>skippedCount := skippedCount n + 1\<rparr>, w1)
         | (Inr None, w1) \<Rightarrow>
             (case fetchExchangeRates e cfg baseCurrency w1 of
                (Inl err, w2) \<Rightarrow> (n\<lparr>errorCount := errorCount n + 1\<rparr>, w2)
              | (Inr rates, w2) \<Rightarrow>
                  (case storeExchangeRates e baseCurrency currentDate rates w2 of
                     (Some err, w3) \<Rightarrow> (n\<lparr>errorCount := errorCount n + 1\<rparr>, w3)
                   | (None, w3) \<Rightarrow> (n\<lparr>successCount := successCount n + 1\<rparr>, w3)))))"

fun for_range ::
  "env \<Rightarrow> config \<Rightarrow> string \<Rightarrow> string list \<Rightarrow> counters \<times> world \<Rightarrow> counters \<times> world" where
  "for_range e cfg currentDate [] s = s"
| "for_range e cfg currentDate (baseCurrency # rest) s =
     for_range e cfg currentDate rest (loop_body e cfg currentDate baseCurrency s)"

text \<open>
  What one invocation leaves: the error it returns (\<open>None\<close> for \<open>nil\<close>), the counts of
  its closing log line, and the world.
\<close>

record invocation =
  returned :: "error option"
  counts :: counters
  after :: world

definition handler :: "env \<Rightarrow> config \<Rightarrow> world \<Rightarrow> invocation" where
  "handler e cfg w =
     (let currentDate = FormatDate (time_Now e w);
          (err, w1) = storeSupportedCurrencies e cfg w;
          (n, w2) = for_range e cfg currentDate (supportedCurrencies cfg)
                      (\<lparr>successCount = 0, errorCount = 0, skippedCount = 0\<rparr>, w1)
      in \<lparr>returned =
             (if errorCount n > 0 \<and> successCount n = 0 \<and> skippedCount n = 0
              then Some (AllUpdatesFailed (errorCount n)) else None),
          counts = n, after = w2\<rparr>)"

section \<open>Observing a run\<close>

text \<open>
  What the outside saw of a run, read off the history of calls: the keys looked up, the
  URLs requested, the items sent to be written.
\<close>

fun probed :: "call list \<Rightarrow> key list" where
  "probed [] = []"
| "probed (GetItemCall k # h) = k # probed h"
| "probed (_ # h) = probed h"

fun fetched :: "call list \<Rightarrow> string list" where
  "fetched [] = []"
| "fetched (HttpGetCall u # h) = u # fetched h"
| "fetched (_ # h) = fetched h"

fun written :: "call list \<Rightarrow> item list" where
  "written [] = []"
| "written (PutItemCall it # h) = it # written h"
| "written (_ # h) = written h"

definition total :: "counters \<Rightarrow> nat" where
  "total n = successCount n + errorCount n + skippedCount n"

subsection \<open>Currency codes\<close>

text \<open>
  The specification's words for a well-formed code: exactly three characters, each an
  uppercase ASCII letter. \<open>not_upper\<close> is the test of the validation loop.
\<close>

definition upper_letter :: "char \<Rightarrow> bool" where
  "upper_letter ch = (of_char CHR ''A'' \<le> (of_char ch :: nat) \<and> (of_char ch :: nat) \<le> of_char CHR ''Z'')"

definition three_upper_letters :: "string \<Rightarrow> bool" where
  "three_upper_letters s = (length s = 3 \<and> list_all upper_letter s)"

abbreviation (input) not_upper :: "rune \<Rightarrow> bool" where
  "not_upper \<equiv> (\<lambda>r. r < of_char CHR ''A'' \<or> r > of_char CHR ''Z'')"

subsection \<open>A concrete run\<close>

text \<open>
  Two configured currencies, an empty table, a store that answers, and a provider that
  answers for EUR on the public endpoint and is unreachable for anything else.
\<close>

definition scenario_config :: config where
  "scenario_config =
     \<lparr>tableName = ''exchange-rates'', apiKey = [], supportedCurrencies = [''EUR'', ''GBP'']\<rparr>"

definition scenario_now :: Time where
  "scenario_now = \<lparr>year = 2025, month = 7, day = 4, nanosecond = 600000000000\<rparr>"

definition scenario_response :: ExchangeRateResponse where
  "scenario_response =
     \<lparr>Result = ''success'', BaseCode = [],
      ConversionRates = [''USD'' \<mapsto> 1.1, ''JPY'' \<mapsto> 160]\<rparr>"

definition scenario_env :: env where
  "scenario_env =
     \<lparr>clock = (\<lambda>h. scenario_now), get_fails = (\<lambda>h. False), put_fails = (\<lambda>h. False),
      provider =
        (\<lambda>h. if last h = HttpGetCall ''https://api.exchangerate-api.com/v4/latest/EUR''
             then Response 200 (Json scenario_response) else TransportError)\<rparr>"

definition empty_world :: world where
  "empty_world = \<lparr>table = Map.empty, calls = []\<rparr>"

definition scenario_record :: ExchangeRateRecord where
  "scenario_record =
     \<lparr>Key = ''EUR'', SortKey = ''2025-07-04'', ExchangeRates = [''USD'' \<mapsto> 1.1],
      UpdatedAt = scenario_now\<rparr>"

section \<open>Properties\<close>

lemmas run_defs =
  handler_def loop_body_def checkExistingExchangeRates_def fetchExchangeRates_def
  storeExchangeRates_def storeSupportedCurrencies_def GetItem_def PutItem_def http_Get_def
  MarshalMap_key_def MarshalMap_record_def MarshalMap_currencies_def time_Now_def
  request_url_def Let_def

lemmas runes_defs = runes_def range_runes.simps next_rune_def byte_of_def

lemmas scenario_defs = scenario_env_def scenario_config_def empty_world_def scenario_response_def

lemma FormatDate_scenario: "FormatDate scenario_now = ''2025-07-04''"
  by (simp add: scenario_now_def FormatDate_def appendInt_def utoa.simps digit_char_def
        char_of_def bit_Suc_0_iff)

subsection \<open>Splitting the configured list\<close>

lemma IndexByte_None: "IndexByte s c = None \<longleftrightarrow> c \<notin> set s"
  by (induction s) auto

lemma IndexByte_Some:
  "IndexByte s c = Some m \<Longrightarrow> s = take m s @ c # drop (Suc m) s \<and> c \<notin> set (take m s)"
  by (induction s arbitrary: m) (auto split: if_splits)

lemma IndexByte_count:
  "IndexByte s c = Some m \<Longrightarrow> count_list s c = Suc (count_list (drop (Suc m) s) c)"
  by (induction s arbitrary: m) (auto split: if_splits)

lemma Split_not_Nil: "Split s c \<noteq> []"
  by (subst Split.simps) (simp split: option.split)

lemma Join_Cons: "xs \<noteq> [] \<Longrightarrow> Join (x # xs) c = x @ c # Join xs c"
  by (cases xs) simp_all

lemma Join_Split: "Join (Split s c) c = s"
proof (induction s c rule: Split.induct)
  case (1 s sep)
  show ?case
  proof (cases "IndexByte s sep")
    case None
    then show ?thesis by (simp add: Split.simps)
  next
    case (Some m)
    have "Join (Split s sep) sep = take m s @ sep # Join (Split (drop (m + 1) s) sep) sep"
      using Some by (subst Split.simps) (simp add: Join_Cons Split_not_Nil)
    also have "\<dots> = take m s @ sep # drop (Suc m) s"
      using 1 [OF Some] by simp
    also have "\<dots> = s"
      using IndexByte_Some [OF Some] by simp
    finally show ?thesis .
  qed
qed

lemma Split_no_sep: "seg \<in> set (Split s c) \<Longrightarrow> c \<notin> set seg"
proof (induction s c arbitrary: seg rule: Split.induct)
  case (1 s sep)
  show ?case
  proof (cases "IndexByte s sep")
    case None
    then have "Split s sep = [s]" by (subst Split.simps) simp
    then show ?thesis using "1.prems" None by (simp add: IndexByte_None)
  next
    case (Some m)
    from "1.prems" Some have "seg = take m s \<or> seg \<in> set (Split (drop (m + 1) s) sep)"
      by (subst (asm) Split.simps) simp
    then show ?thesis
      using IndexByte_Some [OF Some] "1.IH" [OF Some] by auto
  qed
qed

lemma length_Split: "length (Split s c) = count_list s c + 1"
proof (induction s c rule: Split.induct)
  case (1 s sep)
  show ?case
  proof (cases "IndexByte s sep")
    case None
    then have "Split s sep = [s]" by (subst Split.simps) simp
    then show ?thesis using None by (simp add: IndexByte_None)
  next
    case (Some m)
    have "count_list s sep = Suc (count_list (drop (Suc m) s) sep)"
      using Some by (rule IndexByte_count)
    then show ?thesis
      using 1 [OF Some] Some by (subst Split.simps) simp
  qed
qed

text \<open>
  C9. When \<open>SUPPORTED_CURRENCIES\<close> is unset or empty, the configured list is the fixed
  default of thirteen codes; when it is a non-empty string, the list is that string split
  at every pipe character, in order: joining the segments with pipes gives the string
  back, no segment holds a pipe, and there is one more segment than there are pipes.
  This is what \<open>init\<close> leaves whenever it returns at all, which it does when the SDK
  configuration loads and the table name is set.
\<close>

theorem init_supported_currencies:
  assumes "sdk_ok" and "getenv ''EXCHANGE_RATE_DB_NAME'' \<noteq> []"
  shows "\<exists>cfg. init getenv sdk_ok = Inr cfg \<and>
     (getenv ''SUPPORTED_CURRENCIES'' = [] \<longrightarrow>
        supportedCurrencies cfg =
          [''EUR'', ''GBP'', ''CHF'', ''SEK'', ''NOK'', ''DKK'', ''PLN'', ''CZK'', ''HUF'',
           ''RON'', ''UAH'', ''BYN'', ''RUB''] \<and>
        length (supportedCurrencies cfg) = 13) \<and>
     (getenv ''SUPPORTED_CURRENCIES'' \<noteq> [] \<longrightarrow>
        supportedCurrencies cfg = Split (getenv ''SUPPORTED_CURRENCIES'') CHR ''|'' \<and>
        Join (supportedCurrencies cfg) CHR ''|'' = getenv ''SUPPORTED_CURRENCIES'' \<and>
        (\<forall>seg \<in> set (supportedCurrencies cfg). CHR ''|'' \<notin> set seg) \<and>
        length (supportedCurrencies cfg) =
          count_list (getenv ''SUPPORTED_CURRENCIES'') CHR ''|'' + 1)"
  using assms
  by (auto simp: init_def Let_def defaultCurrencies_def Join_Split length_Split
           dest: Split_no_sep)

theorem init_supported_currencies_witness:
  "(\<exists>cfg. init (\<lambda>v. if v = ''EXCHANGE_RATE_DB_NAME'' then ''rates'' else []) True = Inr cfg \<and>
          length (supportedCurrencies cfg) = 13 \<and> hd (supportedCurrencies cfg) = ''EUR'') \<and>
   (\<exists>cfg. init (\<lambda>v. if v = ''EXCHANGE_RATE_DB_NAME'' then ''rates''
                     else if v = ''SUPPORTED_CURRENCIES'' then ''USD|EUR||JPY'' else []) True
            = Inr cfg \<and>
          supportedCurrencies cfg = [''USD'', ''EUR'', [], ''JPY''])"
proof -
  let ?g1 = "\<lambda>v. if v = ''EXCHANGE_RATE_DB_NAME'' then ''rates'' else []"
  let ?g2 = "\<lambda>v. if v = ''EXCHANGE_RATE_DB_NAME'' then ''rates''
                  else if v = ''SUPPORTED_CURRENCIES'' then ''USD|EUR||JPY'' else []"
  have s: "Split ''USD|EUR||JPY'' CHR ''|'' = [''USD'', ''EUR'', [], ''JPY'']"
    by (simp add: Split.simps)
  have "\<exists>cfg. init ?g1 True = Inr cfg \<and>
          length (supportedCurrencies cfg) = 13 \<and> hd (supportedCurrencies cfg) = ''EUR''"
    using init_supported_currencies [of True ?g1] by auto
  moreover have "\<exists>cfg. init ?g2 True = Inr cfg \<and>
          supportedCurrencies cfg = [''USD'', ''EUR'', [], ''JPY'']"
    using init_supported_currencies [of True ?g2] by (auto simp: s)
  ultimately show ?thesis by blast
qed

subsection \<open>What each call leaves in the history\<close>

lemma probed_append: "probed (h @ h') = probed h @ probed h'"
  by (induction h rule: probed.induct) simp_all

lemma fetched_append: "fetched (h @ h') = fetched h @ fetched h'"
  by (induction h rule: fetched.induct) simp_all

lemma written_append: "written (h @ h') = written h @ written h'"
  by (induction h rule: written.induct) simp_all

lemma check_world:
  "snd (checkExistingExchangeRates e c d w) = w\<lparr>calls := calls w @ [GetItemCall (c, d)]\<rparr>"
  by (simp add: checkExistingExchangeRates_def MarshalMap_key_def GetItem_def Let_def
           split: option.splits)

lemma fetch_world:
  "snd (fetchExchangeRates e cfg c w) = w \<or>
   snd (fetchExchangeRates e cfg c w) = w\<lparr>calls := calls w @ [HttpGetCall (request_url cfg c)]\<rparr>"
  by (simp add: fetchExchangeRates_def http_Get_def Let_def
           split: http_result.splits http_body.splits)

lemma store_calls:
  "calls (snd (storeExchangeRates e c d rates w)) =
     calls w @ [PutItemCall (ExchangeRateItem \<lparr>Key = c, SortKey = d,
        ExchangeRates = ConversionRates rates, UpdatedAt = time_Now e w\<rparr>)]"
  by (simp add: storeExchangeRates_def MarshalMap_record_def PutItem_def Let_def)

lemma check_probed:
  "checkExistingExchangeRates e c d w = (r, w1) \<Longrightarrow>
     probed (calls w1) = probed (calls w) @ [(c, d)]"
  using check_world [of e c d w] by (simp add: probed_append)

lemma fetch_probed:
  "fetchExchangeRates e cfg c w = (r, w1) \<Longrightarrow> probed (calls w1) = probed (calls w)"
  using fetch_world [of e cfg c w] by (auto simp: probed_append)

lemma store_probed:
  "storeExchangeRates e c d rates w = (r, w1) \<Longrightarrow> probed (calls w1) = probed (calls w)"
  using store_calls [of e c d rates w] by (simp add: probed_append)

lemma storeSupportedCurrencies_probed:
  "storeSupportedCurrencies e cfg w = (r, w1) \<Longrightarrow> probed (calls w1) = probed (calls w)"
  by (auto simp: storeSupportedCurrencies_def MarshalMap_currencies_def PutItem_def Let_def
                 probed_append split: if_splits)

subsection \<open>The counters\<close>

lemma loop_body_one:
  "\<exists>w'. loop_body e cfg d c (n, w) = (n\<lparr>successCount := successCount n + 1\<rparr>, w') \<or>
        loop_body e cfg d c (n, w) = (n\<lparr>errorCount := errorCount n + 1\<rparr>, w') \<or>
        loop_body e cfg d c (n, w) = (n\<lparr>skippedCount := skippedCount n + 1\<rparr>, w')"
  by (auto simp: loop_body_def split: prod.splits sum.splits option.splits)

lemma loop_body_total: "total (fst (loop_body e cfg d c (n, w))) = total n + 1"
  using loop_body_one [of e cfg d c n w] by (auto simp: total_def)

lemma for_range_total: "total (fst (for_range e cfg d cs s)) = total (fst s) + length cs"
proof (induction cs arbitrary: s)
  case Nil
  show ?case by simp
next
  case (Cons c cs)
  obtain n w where s: "s = (n, w)" by (cases s)
  show ?case using Cons [of "loop_body e cfg d c (n, w)"] loop_body_total [of e cfg d c n w]
    by (simp add: s)
qed

lemma handler_counts:
  "counts (handler e cfg w) =
     fst (for_range e cfg (FormatDate (time_Now e w)) (supportedCurrencies cfg)
            (\<lparr>successCount = 0, errorCount = 0, skippedCount = 0\<rparr>,
             snd (storeSupportedCurrencies e cfg w)))"
  by (simp add: handler_def Let_def split: prod.splits)

lemma handler_after:
  "after (handler e cfg w) =
     snd (for_range e cfg (FormatDate (time_Now e w)) (supportedCurrencies cfg)
            (\<lparr>successCount = 0, errorCount = 0, skippedCount = 0\<rparr>,
             snd (storeSupportedCurrencies e cfg w)))"
  by (simp add: handler_def Let_def split: prod.splits)

lemma handler_returned:
  "returned (handler e cfg w) =
     (if errorCount (counts (handler e cfg w)) > 0 \<and>
         successCount (counts (handler e cfg w)) = 0 \<and>
         skippedCount (counts (handler e cfg w)) = 0
      then Some (AllUpdatesFailed (errorCount (counts (handler e cfg w)))) else None)"
  by (simp add: handler_def Let_def split: prod.splits)

lemma handler_total: "total (counts (handler e cfg w)) = length (supportedCurrencies cfg)"
  unfolding handler_counts for_range_total by (simp add: total_def)

lemma scenario_counts:
  "counts (handler scenario_env scenario_config empty_world) =
     \<lparr>successCount = 1, errorCount = 1, skippedCount = 0\<rparr>"
  by (simp add: run_defs runes_defs scenario_defs FormatDate_scenario)

lemma outage_counts:
  "counts (handler (scenario_env\<lparr>get_fails := \<lambda>h. True\<rparr>) scenario_config empty_world) =
     \<lparr>successCount = 0, errorCount = 2, skippedCount = 0\<rparr>"
  by (simp add: run_defs runes_defs scenario_defs FormatDate_scenario)

text \<open>
  C1. The handler returns an error exactly when, after the loop over every configured
  currency, the error count is positive and the success and skipped counts are both zero;
  with any other counts (in particular with one success or one skip) it returns \<open>nil\<close>.
  Since every currency is counted once, that is exactly when the list is not empty and
  every currency in it failed. The counts are those the loop leaves.
\<close>

theorem handler_error_iff_all_failed:
  "(returned (handler e cfg w) \<noteq> None \<longleftrightarrow>
      errorCount (counts (handler e cfg w)) > 0 \<and>
      successCount (counts (handler e cfg w)) = 0 \<and>
      skippedCount (counts (handler e cfg w)) = 0) \<and>
   (returned (handler e cfg w) = None \<longleftrightarrow>
      errorCount (counts (handler e cfg w)) = 0 \<or>
      successCount (counts (handler e cfg w)) > 0 \<or>
      skippedCount (counts (handler e cfg w)) > 0) \<and>
   (returned (handler e cfg w) \<noteq> None \<longleftrightarrow>
      supportedCurrencies cfg \<noteq> [] \<and>
      errorCount (counts (handler e cfg w)) = length (supportedCurrencies cfg)) \<and>
   counts (handler e cfg w) =
     fst (for_range e cfg (FormatDate (time_Now e w)) (supportedCurrencies cfg)
            (\<lparr>successCount = 0, errorCount = 0, skippedCount = 0\<rparr>,
             snd (storeSupportedCurrencies e cfg w)))"
proof -
  let ?n = "counts (handler e cfg w)"
  have t: "successCount ?n + errorCount ?n + skippedCount ?n = length (supportedCurrencies cfg)"
    using handler_total [of e cfg w] by (simp add: total_def)
  have r: "returned (handler e cfg w) \<noteq> None \<longleftrightarrow>
      errorCount ?n > 0 \<and> successCount ?n = 0 \<and> skippedCount ?n = 0"
    by (subst handler_returned) simp
  have "errorCount ?n > 0 \<and> successCount ?n = 0 \<and> skippedCount ?n = 0 \<longleftrightarrow>
      supportedCurrencies cfg \<noteq> [] \<and> errorCount ?n = length (supportedCurrencies cfg)"
    using t by auto
  with r show ?thesis
    by (auto simp: handler_counts [symmetric])
qed

theorem handler_error_iff_all_failed_witness:
  "returned (handler (scenario_env\<lparr>get_fails := \<lambda>h. True\<rparr>) scenario_config empty_world)
     \<noteq> None \<and>
   returned (handler scenario_env scenario_config empty_world) = None"
  using handler_error_iff_all_failed
          [of "scenario_env\<lparr>get_fails := \<lambda>h. True\<rparr>" scenario_config empty_world,
           THEN conjunct1]
        handler_error_iff_all_failed
          [of scenario_env scenario_config empty_world, THEN conjunct1]
  by (simp add: scenario_counts outage_counts)

text \<open>
  C10. One pass of the loop body adds one to exactly one of the three counters and leaves
  the other two as they were, so at classification the three counts add up to the number
  of configured currencies; with no configured currency all three are zero and the
  handler returns \<open>nil\<close>.
\<close>

theorem loop_counts_every_currency_once:
  "(\<exists>w'. loop_body e cfg d c (n, w) = (n\<lparr>successCount := successCount n + 1\<rparr>, w') \<or>
         loop_body e cfg d c (n, w) = (n\<lparr>errorCount := errorCount n + 1\<rparr>, w') \<or>
         loop_body e cfg d c (n, w) = (n\<lparr>skippedCount := skippedCount n + 1\<rparr>, w')) \<and>
   successCount (counts (handler e cfg w)) + errorCount (counts (handler e cfg w)) +
     skippedCount (counts (handler e cfg w)) = length (supportedCurrencies cfg) \<and>
   (supportedCurrencies cfg = [] \<longrightarrow>
      counts (handler e cfg w) = \<lparr>successCount = 0, errorCount = 0, skippedCount = 0\<rparr> \<and>
      returned (handler e cfg w) = None)"
proof -
  have "supportedCurrencies cfg = [] \<Longrightarrow>
      counts (handler e cfg w) = \<lparr>successCount = 0, errorCount = 0, skippedCount = 0\<rparr>"
    by (simp add: handler_counts)
  moreover have "supportedCurrencies cfg = [] \<Longrightarrow> returned (handler e cfg w) = None"
    by (subst handler_returned) (simp add: handler_counts)
  ultimately show ?thesis
    using loop_body_one [of e cfg d c n w] handler_total [of e cfg w]
    by (simp add: total_def)
qed

theorem loop_counts_every_currency_once_witness:
  "counts (handler scenario_env (scenario_config\<lparr>supportedCurrencies := []\<rparr>) empty_world) =
     \<lparr>successCount = 0, errorCount = 0, skippedCount = 0\<rparr> \<and>
   returned (handler scenario_env (scenario_config\<lparr>supportedCurrencies := []\<rparr>) empty_world) =
     None \<and>
   successCount (counts (handler scenario_env scenario_config empty_world)) +
     errorCount (counts (handler scenario_env scenario_config empty_world)) +
     skippedCount (counts (handler scenario_env scenario_config empty_world)) = 2"
  using loop_counts_every_currency_once
          [of scenario_env scenario_config "''2025-07-04''" "''EUR''"
              "\<lparr>successCount = 0, errorCount = 0, skippedCount = 0\<rparr>" empty_world]
        loop_counts_every_currency_once
          [of scenario_env "scenario_config\<lparr>supportedCurrencies := []\<rparr>" "''2025-07-04''"
              "''EUR''" "\<lparr>successCount = 0, errorCount = 0, skippedCount = 0\<rparr>" empty_world]
  by (simp add: scenario_config_def)

subsection \<open>Validation of the currency code\<close>

lemma decoderune_above_ascii: "0x7F < fst (decoderune bs)"
  by (cases bs; cases "tl bs"; cases "tl (tl bs)"; cases "tl (tl (tl bs))")
     (auto simp: Let_def RuneError_def)

lemma unat_byte_of: "unat (byte_of c) = of_char c"
proof -
  have "byte_of c = of_nat (of_char c)"
    by (simp add: byte_of_def of_nat_of_char)
  then show ?thesis
    by (simp add: unat_of_nat)
qed

lemma uint_byte_of: "uint (byte_of c) = int (of_char c)"
  using unat_byte_of [of c] by (simp add: uint_nat)

lemma range_runes_not_upper:
  "list_ex not_upper (range_runes (map byte_of s)) \<longleftrightarrow> \<not> list_all upper_letter s"
proof (induction s)
  case Nil
  show ?case by (simp add: range_runes.simps)
next
  case (Cons c s)
  show ?case
  proof (cases "byte_of c < 0x80")
    case True
    then have "range_runes (map byte_of (c # s)) = uint (byte_of c) # range_runes (map byte_of s)"
      by (subst range_runes.simps) (simp add: next_rune_def)
    moreover have "not_upper (uint (byte_of c)) \<longleftrightarrow> \<not> upper_letter c"
      by (auto simp: upper_letter_def uint_byte_of)
    ultimately show ?thesis using Cons by simp
  next
    case False
    then have "fst (next_rune (map byte_of (c # s))) = fst (decoderune (map byte_of (c # s)))"
      by (simp add: next_rune_def)
    then have "not_upper (fst (next_rune (map byte_of (c # s))))"
      using decoderune_above_ascii [of "map byte_of (c # s)"] by simp
    then have l: "list_ex not_upper (range_runes (map byte_of (c # s)))"
      by (subst range_runes.simps) simp
    from False have "\<not> unat (byte_of c) < 128"
      by (simp add: word_less_nat_alt)
    then have "\<not> upper_letter c"
      by (simp add: upper_letter_def unat_byte_of)
    with l show ?thesis by simp
  qed
qed

lemma runes_ascii:
  "list_all upper_letter s \<Longrightarrow> runes s = map of_char s"
proof (induction s)
  case Nil
  show ?case by (simp add: runes_def range_runes.simps)
next
  case (Cons c s)
  then have "of_char c < (128::nat)"
    by (simp add: upper_letter_def)
  then have "byte_of c < 0x80"
    by (simp add: word_less_nat_alt unat_byte_of)
  then have "range_runes (map byte_of (c # s)) = uint (byte_of c) # range_runes (map byte_of s)"
    by (subst range_runes.simps) (simp add: next_rune_def)
  then show ?case using Cons by (simp add: runes_def uint_byte_of of_nat_of_char)
qed

lemma three_upper_letters_runes:
  "three_upper_letters s \<longleftrightarrow>
     length (runes s) = 3 \<and>
     list_all (\<lambda>r. of_char CHR ''A'' \<le> r \<and> r \<le> of_char CHR ''Z'') (runes s)"
proof
  assume "three_upper_letters s"
  then have l: "length s = 3" and u: "list_all upper_letter s"
    by (simp_all add: three_upper_letters_def)
  have "\<not> list_ex (\<lambda>r. r < of_char CHR ''A'' \<or> r > of_char CHR ''Z'') (runes s)"
    using u unfolding runes_def range_runes_not_upper by simp
  then have "list_all (\<lambda>r. of_char CHR ''A'' \<le> r \<and> r \<le> of_char CHR ''Z'') (runes s)"
    by (auto simp: list_ex_iff list_all_iff)
  then show "length (runes s) = 3 \<and>
     list_all (\<lambda>r. of_char CHR ''A'' \<le> r \<and> r \<le> of_char CHR ''Z'') (runes s)"
    using l runes_ascii [OF u] by simp
next
  assume a: "length (runes s) = 3 \<and>
     list_all (\<lambda>r. of_char CHR ''A'' \<le> r \<and> r \<le> of_char CHR ''Z'') (runes s)"
  then have "\<not> list_ex (\<lambda>r. r < of_char CHR ''A'' \<or> r > of_char CHR ''Z'') (runes s)"
    by (auto simp: list_ex_iff list_all_iff)
  then have u: "list_all upper_letter s"
    unfolding runes_def range_runes_not_upper by simp
  then show "three_upper_letters s"
    using a runes_ascii [OF u] by (simp add: three_upper_letters_def)
qed

text \<open>
  C4. For a string that is not exactly three uppercase ASCII letters,
  \<open>fetchExchangeRates\<close> returns one of its two validation errors and leaves the world
  as it was: no HTTP request is issued. For a string that is, the request to the
  configured endpoint is issued. Counting characters as bytes or as decoded runes makes
  no difference to which strings pass.
\<close>

theorem fetch_validates_before_request:
  "(\<not> three_upper_letters c \<longrightarrow>
      (\<exists>err. fetchExchangeRates e cfg c w = (Inl err, w) \<and> is_validation_error err) \<and>
      fetched (calls (snd (fetchExchangeRates e cfg c w))) = fetched (calls w)) \<and>
   (three_upper_letters c \<longrightarrow>
      snd (fetchExchangeRates e cfg c w) =
        w\<lparr>calls := calls w @ [HttpGetCall (request_url cfg c)]\<rparr> \<and>
      fetched (calls (snd (fetchExchangeRates e cfg c w))) =
        fetched (calls w) @ [request_url cfg c]) \<and>
   (three_upper_letters c \<longleftrightarrow>
      length (runes c) = 3 \<and>
      list_all (\<lambda>r. of_char CHR ''A'' \<le> r \<and> r \<le> of_char CHR ''Z'') (runes c))"
proof -
  have bad: "\<not> three_upper_letters c \<Longrightarrow>
      (\<exists>err. fetchExchangeRates e cfg c w = (Inl err, w) \<and> is_validation_error err)"
    unfolding fetchExchangeRates_def runes_def range_runes_not_upper
    by (auto simp: three_upper_letters_def)
  have good: "three_upper_letters c \<Longrightarrow>
      snd (fetchExchangeRates e cfg c w) =
        w\<lparr>calls := calls w @ [HttpGetCall (request_url cfg c)]\<rparr>"
    unfolding fetchExchangeRates_def runes_def range_runes_not_upper
    by (simp add: three_upper_letters_def http_Get_def Let_def
             split: http_result.splits http_body.splits)
  show ?thesis
    using bad good three_upper_letters_runes [of c]
    by (auto simp: fetched_append)
qed

theorem fetch_validates_before_request_witness:
  "fetchExchangeRates scenario_env scenario_config ''eur'' empty_world =
     (Inl BaseCurrencyNotUpper, empty_world) \<and>
   fetchExchangeRates scenario_env scenario_config ''EURO'' empty_world =
     (Inl BaseCurrencyLength, empty_world) \<and>
   fetchExchangeRates scenario_env scenario_config [CHR 0xC3, CHR 0x89, CHR ''A''] empty_world =
     (Inl BaseCurrencyNotUpper, empty_world) \<and>
   fetched (calls (snd (fetchExchangeRates scenario_env scenario_config ''eur'' empty_world)))
     = [] \<and>
   fetched (calls (snd (fetchExchangeRates scenario_env scenario_config ''EUR'' empty_world)))
     = [''https://api.exchangerate-api.com/v4/latest/EUR'']"
proof -
  have 1: "\<not> three_upper_letters ''eur''" and 2: "three_upper_letters ''EUR''"
    by (simp_all add: three_upper_letters_def upper_letter_def)
  have 3: "fetchExchangeRates scenario_env scenario_config ''eur'' empty_world =
     (Inl BaseCurrencyNotUpper, empty_world)"
   and 4: "fetchExchangeRates scenario_env scenario_config ''EURO'' empty_world =
     (Inl BaseCurrencyLength, empty_world)"
    by (simp_all add: fetchExchangeRates_def runes_defs)
  have 5: "fetchExchangeRates scenario_env scenario_config [CHR 0xC3, CHR 0x89, CHR ''A'']
             empty_world = (Inl BaseCurrencyNotUpper, empty_world)"
    by (simp add: fetchExchangeRates_def runes_defs low_bits_def cb_def)
  show ?thesis
    using fetch_validates_before_request
            [of "''eur''" scenario_env scenario_config empty_world]
          fetch_validates_before_request
            [of "''EUR''" scenario_env scenario_config empty_world]
          1 2 3 4 5
    by (simp add: empty_world_def scenario_config_def request_url_def)
qed

subsection \<open>The loop visits every currency\<close>

lemma for_range_append:
  "for_range e cfg d (xs @ ys) s = for_range e cfg d ys (for_range e cfg d xs s)"
  by (induction xs arbitrary: s) simp_all

lemma loop_body_probed:
  "probed (calls (snd (loop_body e cfg d c (n, w)))) = probed (calls w) @ [(c, d)]"
  by (auto simp: loop_body_def split: prod.splits sum.splits option.splits
           dest!: check_probed fetch_probed store_probed)

lemma for_range_probed:
  "probed (calls (snd (for_range e cfg d cs s))) =
     probed (calls (snd s)) @ map (\<lambda>c. (c, d)) cs"
proof (induction cs arbitrary: s)
  case Nil
  show ?case by simp
next
  case (Cons c cs)
  obtain n w where s: "s = (n, w)" by (cases s)
  show ?case using Cons [of "loop_body e cfg d c (n, w)"] loop_body_probed [of e cfg d c n w]
    by (simp add: s)
qed

lemma handler_probed:
  "probed (calls (after (handler e cfg w))) =
     probed (calls w) @ map (\<lambda>c. (c, FormatDate (time_Now e w))) (supportedCurrencies cfg)"
proof -
  obtain r w1 where s: "storeSupportedCurrencies e cfg w = (r, w1)"
    by (cases "storeSupportedCurrencies e cfg w")
  show ?thesis
    using storeSupportedCurrencies_probed [OF s]
    by (simp add: handler_after for_range_probed s)
qed

text \<open>
  C3. Whatever the environment answers to the lookups, requests and writes, the loop
  looks up every configured currency once, in list order: the keys it asks the table for
  are exactly the configured list paired with the date. A failed lookup, a failed fetch
  and a failed write each end the body with the error count one higher and nothing else
  counted, and the rest of the list is processed from the world the body left; every
  currency is counted.
\<close>

theorem loop_visits_every_currency:
  "probed (calls (snd (for_range e cfg d cs (n, w)))) =
     probed (calls w) @ map (\<lambda>c. (c, d)) cs \<and>
   probed (calls (after (handler e cfg w))) =
     probed (calls w) @ map (\<lambda>c. (c, FormatDate (time_Now e w))) (supportedCurrencies cfg) \<and>
   for_range e cfg d (cs @ c # rest) (n, w) =
     for_range e cfg d rest (loop_body e cfg d c (for_range e cfg d cs (n, w))) \<and>
   successCount (fst (for_range e cfg d cs (n, w))) + errorCount (fst (for_range e cfg d cs (n, w)))
     + skippedCount (fst (for_range e cfg d cs (n, w)))
     = successCount n + errorCount n + skippedCount n + length cs \<and>
   (\<forall>err w1. checkExistingExchangeRates e c d w = (Inl err, w1) \<longrightarrow>
      loop_body e cfg d c (n, w) = (n\<lparr>errorCount := errorCount n + 1\<rparr>, w1)) \<and>
   (\<forall>err w1 w2. checkExistingExchangeRates e c d w = (Inr None, w1) \<and>
      fetchExchangeRates e cfg c w1 = (Inl err, w2) \<longrightarrow>
      loop_body e cfg d c (n, w) = (n\<lparr>errorCount := errorCount n + 1\<rparr>, w2)) \<and>
   (\<forall>rates err w1 w2 w3. checkExistingExchangeRates e c d w = (Inr None, w1) \<and>
      fetchExchangeRates e cfg c w1 = (Inr rates, w2) \<and>
      storeExchangeRates e c d rates w2 = (Some err, w3) \<longrightarrow>
      loop_body e cfg d c (n, w) = (n\<lparr>errorCount := errorCount n + 1\<rparr>, w3))"
proof -
  have "for_range e cfg d (cs @ c # rest) (n, w) =
     for_range e cfg d rest (loop_body e cfg d c (for_range e cfg d cs (n, w)))"
    by (simp add: for_range_append)
  moreover have "successCount (fst (for_range e cfg d cs (n, w))) +
      errorCount (fst (for_range e cfg d cs (n, w))) +
      skippedCount (fst (for_range e cfg d cs (n, w)))
     = successCount n + errorCount n + skippedCount n + length cs"
    using for_range_total [of e cfg d cs "(n, w)"] by (simp add: total_def)
  moreover have "probed (calls (snd (for_range e cfg d cs (n, w)))) =
     probed (calls w) @ map (\<lambda>c. (c, d)) cs"
    by (simp add: for_range_probed)
  ultimately show ?thesis
    by (simp add: handler_probed loop_body_def)
qed

theorem loop_visits_every_currency_witness:
  "probed (calls (after (handler (scenario_env\<lparr>get_fails := \<lambda>h. True\<rparr>) scenario_config
      empty_world))) = [(''EUR'', ''2025-07-04''), (''GBP'', ''2025-07-04'')] \<and>
   loop_body (scenario_env\<lparr>get_fails := \<lambda>h. True\<rparr>) scenario_config ''2025-07-04'' ''EUR''
      (\<lparr>successCount = 0, errorCount = 0, skippedCount = 0\<rparr>, empty_world) =
     (\<lparr>successCount = 0, errorCount = 1, skippedCount = 0\<rparr>,
      \<lparr>table = Map.empty, calls = [GetItemCall (''EUR'', ''2025-07-04'')]\<rparr>)"
proof -
  let ?e = "scenario_env\<lparr>get_fails := \<lambda>h. True\<rparr>"
  let ?z = "\<lparr>successCount = 0, errorCount = 0, skippedCount = 0\<rparr>"
  have c: "checkExistingExchangeRates ?e ''EUR'' ''2025-07-04'' empty_world =
      (Inl (CheckFailed ''EUR'' ''2025-07-04''),
       \<lparr>table = Map.empty, calls = [GetItemCall (''EUR'', ''2025-07-04'')]\<rparr>)"
    by (simp add: run_defs scenario_defs)
  have t: "FormatDate (time_Now ?e empty_world) = ''2025-07-04''"
    by (simp add: time_Now_def scenario_env_def FormatDate_scenario)
  have s: "supportedCurrencies scenario_config = [''EUR'', ''GBP'']"
    and p: "probed (calls empty_world) = []"
    by (simp_all add: scenario_config_def empty_world_def)
  note th = loop_visits_every_currency
      [where e = ?e and cfg = scenario_config and d = "''2025-07-04''" and c = "''EUR''"
         and n = ?z and w = empty_world]
  from th have "probed (calls (after (handler ?e scenario_config empty_world))) =
     probed (calls empty_world) @
     map (\<lambda>c. (c, FormatDate (time_Now ?e empty_world))) (supportedCurrencies scenario_config)"
    by blast
  moreover from th c have "loop_body ?e scenario_config ''2025-07-04'' ''EUR'' (?z, empty_world) =
     (?z\<lparr>errorCount := errorCount ?z + 1\<rparr>,
      \<lparr>table = Map.empty, calls = [GetItemCall (''EUR'', ''2025-07-04'')]\<rparr>)"
    by blast
  ultimately show ?thesis
    by (simp add: t s p)
qed

subsection \<open>The idempotency guard and the round trip through the table\<close>

text \<open>
  C2. When the table holds an \<open>ExchangeRateRecord\<close> under (currency, date) and the
  lookup is answered, the body for that currency makes the lookup and nothing else: no
  request to the provider, no write, the table as it was, the skipped count one higher
  and the other two counts unchanged.
\<close>

theorem existing_record_is_skipped:
  assumes "table w (c, d) = Some (ExchangeRateItem r)"
    and "\<not> get_fails e (calls w @ [GetItemCall (c, d)])"
  shows "loop_body e cfg d c (n, w) =
           (n\<lparr>skippedCount := skippedCount n + 1\<rparr>,
            w\<lparr>calls := calls w @ [GetItemCall (c, d)]\<rparr>) \<and>
         fetched (calls (snd (loop_body e cfg d c (n, w)))) = fetched (calls w) \<and>
         written (calls (snd (loop_body e cfg d c (n, w)))) = written (calls w) \<and>
         table (snd (loop_body e cfg d c (n, w))) = table w \<and>
         table (snd (loop_body e cfg d c (n, w))) (c, d) = Some (ExchangeRateItem r) \<and>
         successCount (fst (loop_body e cfg d c (n, w))) = successCount n \<and>
         errorCount (fst (loop_body e cfg d c (n, w))) = errorCount n \<and>
         skippedCount (fst (loop_body e cfg d c (n, w))) = skippedCount n + 1"
proof -
  have "checkExistingExchangeRates e c d w =
          (Inr (Some r), w\<lparr>calls := calls w @ [GetItemCall (c, d)]\<rparr>)"
    using assms
    by (simp add: checkExistingExchangeRates_def MarshalMap_key_def GetItem_def Let_def)
  then have "loop_body e cfg d c (n, w) =
           (n\<lparr>skippedCount := skippedCount n + 1\<rparr>,
            w\<lparr>calls := calls w @ [GetItemCall (c, d)]\<rparr>)"
    by (simp add: loop_body_def)
  then show ?thesis
    using assms(1) by (simp add: fetched_append written_append)
qed

theorem existing_record_is_skipped_witness:
  "loop_body scenario_env scenario_config ''2025-07-04'' ''EUR''
     (\<lparr>successCount = 0, errorCount = 0, skippedCount = 0\<rparr>,
      \<lparr>table = [(''EUR'', ''2025-07-04'') \<mapsto> ExchangeRateItem scenario_record], calls = []\<rparr>) =
     (\<lparr>successCount = 0, errorCount = 0, skippedCount = 1\<rparr>,
      \<lparr>table = [(''EUR'', ''2025-07-04'') \<mapsto> ExchangeRateItem scenario_record],
       calls = [GetItemCall (''EUR'', ''2025-07-04'')]\<rparr>)"
  using existing_record_is_skipped
          [of "\<lparr>table = [(''EUR'', ''2025-07-04'') \<mapsto> ExchangeRateItem scenario_record],
                calls = []\<rparr>"
              "''EUR''" "''2025-07-04''" scenario_record scenario_env scenario_config
              "\<lparr>successCount = 0, errorCount = 0, skippedCount = 0\<rparr>"]
  by (simp add: scenario_env_def)

text \<open>
  C8. After a write of a rate mapping under (currency, date) that succeeded, a lookup of
  the same key that is answered returns a record with that mapping and with
  \<open>UpdatedAt\<close> the reading of the clock at the write, which is not the zero time
  unless the clock read the zero time.
\<close>

theorem put_then_get_round_trip:
  assumes "storeExchangeRates e c d rates w = (None, w1)"
    and "\<not> get_fails e (calls w1 @ [GetItemCall (c, d)])"
  shows "\<exists>r w2. checkExistingExchangeRates e c d w1 = (Inr (Some r), w2) \<and>
           ExchangeRates r = ConversionRates rates \<and>
           UpdatedAt r = time_Now e w \<and>
           Key r = c \<and> SortKey r = d \<and>
           (\<not> IsZero (time_Now e w) \<longrightarrow> \<not> IsZero (UpdatedAt r))"
proof -
  let ?r = "\<lparr>Key = c, SortKey = d, ExchangeRates = ConversionRates rates,
             UpdatedAt = time_Now e w\<rparr>"
  from assms(1) have "table w1 (c, d) = Some (ExchangeRateItem ?r)"
    by (auto simp: storeExchangeRates_def MarshalMap_record_def PutItem_def Let_def
             split: if_splits)
  with assms(2) have "checkExistingExchangeRates e c d w1 =
      (Inr (Some ?r), w1\<lparr>calls := calls w1 @ [GetItemCall (c, d)]\<rparr>)"
    by (simp add: checkExistingExchangeRates_def MarshalMap_key_def GetItem_def Let_def)
  then show ?thesis by simp
qed

theorem put_then_get_round_trip_witness:
  "fst (storeExchangeRates scenario_env ''EUR'' ''2025-07-04'' scenario_response empty_world)
     = None \<and>
   (\<exists>r w2. checkExistingExchangeRates scenario_env ''EUR'' ''2025-07-04''
              (snd (storeExchangeRates scenario_env ''EUR'' ''2025-07-04'' scenario_response
                 empty_world)) = (Inr (Some r), w2) \<and>
      ExchangeRates r = [''USD'' \<mapsto> 1.1, ''JPY'' \<mapsto> 160] \<and>
      UpdatedAt r = scenario_now \<and> \<not> IsZero (UpdatedAt r))"
proof -
  let ?w1 = "snd (storeExchangeRates scenario_env ''EUR'' ''2025-07-04'' scenario_response
                 empty_world)"
  have f: "fst (storeExchangeRates scenario_env ''EUR'' ''2025-07-04'' scenario_response
                  empty_world) = None"
    by (simp add: run_defs scenario_defs)
  then have s: "storeExchangeRates scenario_env ''EUR'' ''2025-07-04'' scenario_response
                  empty_world = (None, ?w1)"
    by (simp add: prod_eq_iff)
  have g: "\<not> get_fails scenario_env (calls ?w1 @ [GetItemCall (''EUR'', ''2025-07-04'')])"
    by (simp add: scenario_env_def)
  have z: "\<not> IsZero (time_Now scenario_env empty_world)"
    by (simp add: IsZero_def zeroTime_def time_Now_def scenario_env_def scenario_now_def)
  have t: "time_Now scenario_env empty_world = scenario_now"
    by (simp add: time_Now_def scenario_env_def)
  have c: "ConversionRates scenario_response = [''USD'' \<mapsto> 1.1, ''JPY'' \<mapsto> 160]"
    by (simp add: scenario_response_def)
  have "\<exists>r w2. checkExistingExchangeRates scenario_env ''EUR'' ''2025-07-04'' ?w1 =
            (Inr (Some r), w2) \<and>
      ExchangeRates r = [''USD'' \<mapsto> 1.1, ''JPY'' \<mapsto> 160] \<and>
      UpdatedAt r = scenario_now \<and> \<not> IsZero (UpdatedAt r)"
    using put_then_get_round_trip [OF s g] z by (auto simp: t c)
  with f show ?thesis by blast
qed

subsection \<open>The result field of the provider's answer\<close>

text \<open>
  C5, as the code has it. For a well-formed code, a status 200 and a body that decodes,
  \<open>fetchExchangeRates\<close> succeeds exactly when the decoded \<open>Result\<close> is empty or
  \<open>success\<close>, whichever endpoint was requested; without an API key that is the public
  endpoint. The check is on the shape of the answer, not on the endpoint.
\<close>

theorem result_field_checked_on_every_endpoint:
  assumes "three_upper_letters c"
    and "provider e (calls w @ [HttpGetCall (request_url cfg c)]) = Response 200 (Json r)"
  shows "fst (fetchExchangeRates e cfg c w) =
           (if Result r = [] \<or> Result r = ''success'' then Inr r
            else Inl (ApiResult (Result r))) \<and>
         (apiKey cfg = [] \<longrightarrow>
            request_url cfg c = ''https://api.exchangerate-api.com/v4/latest/'' @ c)"
  using assms
  unfolding fetchExchangeRates_def runes_def range_runes_not_upper
  by (simp add: three_upper_letters_def http_Get_def Let_def request_url_def)

text \<open>
  C5 as stated fails: with no API key, a status 200 and a body that decodes with the
  result field \<open>error\<close>, the fetch is rejected.
\<close>

theorem public_endpoint_result_counterexample:
  "apiKey scenario_config = [] \<and>
   three_upper_letters ''EUR'' \<and>
   provider (scenario_env\<lparr>provider := \<lambda>h. Response 200
        (Json \<lparr>Result = ''error'', BaseCode = [], ConversionRates = [''USD'' \<mapsto> 1.1]\<rparr>)\<rparr>)
     (calls empty_world @ [HttpGetCall (request_url scenario_config ''EUR'')]) =
     Response 200 (Json \<lparr>Result = ''error'', BaseCode = [], ConversionRates = [''USD'' \<mapsto> 1.1]\<rparr>) \<and>
   fst (fetchExchangeRates
          (scenario_env\<lparr>provider := \<lambda>h. Response 200
             (Json \<lparr>Result = ''error'', BaseCode = [], ConversionRates = [''USD'' \<mapsto> 1.1]\<rparr>)\<rparr>)
          scenario_config ''EUR'' empty_world) = Inl (ApiResult ''error'')"
  by (simp add: run_defs runes_defs scenario_defs three_upper_letters_def upper_letter_def)

theorem result_field_checked_on_every_endpoint_witness:
  "fst (fetchExchangeRates scenario_env scenario_config ''EUR'' empty_world) =
     Inr scenario_response \<and>
   request_url scenario_config ''EUR'' = ''https://api.exchangerate-api.com/v4/latest/EUR''"
proof -
  have 1: "three_upper_letters ''EUR''"
    by (simp add: three_upper_letters_def upper_letter_def)
  have 2: "provider scenario_env
             (calls empty_world @ [HttpGetCall (request_url scenario_config ''EUR'')]) =
           Response 200 (Json scenario_response)"
    by (simp add: scenario_env_def scenario_config_def request_url_def)
  have 3: "apiKey scenario_config = []" and 4: "Result scenario_response = ''success''"
    by (simp_all add: scenario_config_def scenario_response_def)
  show ?thesis
    using result_field_checked_on_every_endpoint [OF 1 2] 3 4 by simp
qed

subsection \<open>The scenario of two currencies\<close>

lemma runes_EUR: "\<not> list_ex not_upper (runes ''EUR'')" and runes_GBP: "\<not> list_ex not_upper (runes ''GBP'')"
  by (simp_all add: runes_defs)

text \<open>
  C6. With EUR and GBP configured, no record for either under today's date, a store that
  answers, the provider answering EUR with result \<open>success\<close> and the rates USD 1.1 and
  JPY 160, and no answer for GBP: the EUR record holds exactly those two rates, the only
  writes are the supported-currencies record and the EUR record, there is no GBP record,
  the counts are one success, one error and no skip, and the handler returns \<open>nil\<close>.
\<close>

theorem eur_written_gbp_failed:
  assumes cur: "supportedCurrencies cfg = [''EUR'', ''GBP'']"
    and eur: "table w (''EUR'', FormatDate (time_Now e w)) = None"
    and gbp: "table w (''GBP'', FormatDate (time_Now e w)) = None"
    and get: "\<forall>h. \<not> get_fails e h"
    and put: "\<forall>h r. \<not> put_fails e (h @ [PutItemCall (ExchangeRateItem r)])"
    and ok: "\<forall>h. provider e (h @ [HttpGetCall (request_url cfg ''EUR'')]) =
               Response 200 (Json \<lparr>Result = ''success'', BaseCode = [],
                 ConversionRates = [''USD'' \<mapsto> 1.1, ''JPY'' \<mapsto> 160]\<rparr>)"
    and down: "\<forall>h. provider e (h @ [HttpGetCall (request_url cfg ''GBP'')]) = TransportError"
  shows "(\<exists>t t'.
            table (after (handler e cfg w)) (''EUR'', FormatDate (time_Now e w)) =
              Some (ExchangeRateItem \<lparr>Key = ''EUR'', SortKey = FormatDate (time_Now e w),
                ExchangeRates = [''USD'' \<mapsto> 1.1, ''JPY'' \<mapsto> 160], UpdatedAt = t\<rparr>) \<and>
            written (calls (after (handler e cfg w))) =
              written (calls w) @
              [SupportedCurrenciesItem \<lparr>scKey = ''SupportedCurrencies'', scSortKey = ''-'',
                 SupportedCurrencies = [''EUR'', ''GBP''], scUpdatedAt = t'\<rparr>,
               ExchangeRateItem \<lparr>Key = ''EUR'', SortKey = FormatDate (time_Now e w),
                 ExchangeRates = [''USD'' \<mapsto> 1.1, ''JPY'' \<mapsto> 160], UpdatedAt = t\<rparr>]) \<and>
         table (after (handler e cfg w)) (''GBP'', FormatDate (time_Now e w)) = None \<and>
         fetched (calls (after (handler e cfg w))) =
           fetched (calls w) @ [request_url cfg ''EUR'', request_url cfg ''GBP''] \<and>
         counts (handler e cfg w) = \<lparr>successCount = 1, errorCount = 1, skippedCount = 0\<rparr> \<and>
         returned (handler e cfg w) = None"
proof -
  let ?d = "FormatDate (time_Now e w)"
  let ?z = "\<lparr>successCount = 0, errorCount = 0, skippedCount = 0\<rparr>"
  obtain r w1 where s: "storeSupportedCurrencies e cfg w = (r, w1)"
    by (cases "storeSupportedCurrencies e cfg w")
  then have w1: "table w1 (''EUR'', ?d) = None" "table w1 (''GBP'', ?d) = None"
    "written (calls w1) = written (calls w) @
       [SupportedCurrenciesItem \<lparr>scKey = ''SupportedCurrencies'', scSortKey = ''-'',
          SupportedCurrencies = [''EUR'', ''GBP''], scUpdatedAt = time_Now e w\<rparr>]"
    "fetched (calls w1) = fetched (calls w)"
    using eur gbp cur
    by (auto simp: storeSupportedCurrencies_def MarshalMap_currencies_def PutItem_def Let_def
                   time_Now_def written_append fetched_append split: if_splits)
  let ?rec = "\<lparr>Key = ''EUR'', SortKey = ?d,
               ExchangeRates = [''USD'' \<mapsto> 1.1, ''JPY'' \<mapsto> 160 :: real],
               UpdatedAt = clock e (calls w1 @ [GetItemCall (''EUR'', ?d),
                  HttpGetCall (request_url cfg ''EUR'')])\<rparr>"
  let ?w2 = "\<lparr>table = (table w1)((''EUR'', ?d) \<mapsto> ExchangeRateItem ?rec),
              calls = calls w1 @ [GetItemCall (''EUR'', ?d), HttpGetCall (request_url cfg ''EUR''),
                PutItemCall (ExchangeRateItem ?rec)]\<rparr>"
  have b1: "loop_body e cfg ?d ''EUR'' (?z, w1) = (?z\<lparr>successCount := 1\<rparr>, ?w2)"
    using w1 get put ok runes_EUR
    by (simp add: loop_body_def checkExistingExchangeRates_def fetchExchangeRates_def
          storeExchangeRates_def GetItem_def PutItem_def http_Get_def MarshalMap_key_def
          MarshalMap_record_def time_Now_def Let_def)
  let ?w3 = "?w2\<lparr>calls := calls ?w2 @ [GetItemCall (''GBP'', ?d),
                HttpGetCall (request_url cfg ''GBP'')]\<rparr>"
  have b2: "loop_body e cfg ?d ''GBP'' (?z\<lparr>successCount := 1\<rparr>, ?w2) =
              (?z\<lparr>successCount := 1, errorCount := 1\<rparr>, ?w3)"
    using w1 get down runes_GBP
    by (simp add: loop_body_def checkExistingExchangeRates_def fetchExchangeRates_def
          GetItem_def http_Get_def MarshalMap_key_def Let_def)
  have fr: "for_range e cfg ?d [''EUR'', ''GBP''] (?z, w1) =
              (?z\<lparr>successCount := 1, errorCount := 1\<rparr>, ?w3)"
    using b1 b2 by simp
  have c: "counts (handler e cfg w) = ?z\<lparr>successCount := 1, errorCount := 1\<rparr>"
    unfolding handler_counts s cur snd_conv fr by simp
  have a: "after (handler e cfg w) = ?w3"
    unfolding handler_after s cur snd_conv fr by simp
  have r: "returned (handler e cfg w) = None"
    by (subst handler_returned) (simp add: c)
  show ?thesis
    using w1 by (simp add: c a r written_append fetched_append)
qed


theorem eur_written_gbp_failed_witness:
  "table (after (handler scenario_env scenario_config empty_world)) (''EUR'', ''2025-07-04'') =
     Some (ExchangeRateItem \<lparr>Key = ''EUR'', SortKey = ''2025-07-04'',
       ExchangeRates = [''USD'' \<mapsto> 1.1, ''JPY'' \<mapsto> 160], UpdatedAt = scenario_now\<rparr>) \<and>
   table (after (handler scenario_env scenario_config empty_world)) (''GBP'', ''2025-07-04'') =
     None \<and>
   counts (handler scenario_env scenario_config empty_world) =
     \<lparr>successCount = 1, errorCount = 1, skippedCount = 0\<rparr> \<and>
   returned (handler scenario_env scenario_config empty_world) = None"
proof -
  have d: "FormatDate (time_Now scenario_env empty_world) = ''2025-07-04''"
    by (simp add: time_Now_def scenario_env_def FormatDate_scenario)
  have 1: "supportedCurrencies scenario_config = [''EUR'', ''GBP'']"
    by (simp add: scenario_config_def)
  have 2: "table empty_world (''EUR'', FormatDate (time_Now scenario_env empty_world)) = None"
    and 3: "table empty_world (''GBP'', FormatDate (time_Now scenario_env empty_world)) = None"
    by (simp_all add: empty_world_def)
  have 4: "\<forall>h. \<not> get_fails scenario_env h"
    and 5: "\<forall>h r. \<not> put_fails scenario_env (h @ [PutItemCall (ExchangeRateItem r)])"
    by (simp_all add: scenario_env_def)
  have 6: "\<forall>h. provider scenario_env (h @ [HttpGetCall (request_url scenario_config ''EUR'')]) =
               Response 200 (Json \<lparr>Result = ''success'', BaseCode = [],
                 ConversionRates = [''USD'' \<mapsto> 1.1, ''JPY'' \<mapsto> 160]\<rparr>)"
    and 7: "\<forall>h. provider scenario_env (h @ [HttpGetCall (request_url scenario_config ''GBP'')]) =
               TransportError"
    by (simp_all add: scenario_defs request_url_def)
  have t: "table (after (handler scenario_env scenario_config empty_world))
             (''EUR'', ''2025-07-04'') =
     Some (ExchangeRateItem \<lparr>Key = ''EUR'', SortKey = ''2025-07-04'',
       ExchangeRates = [''USD'' \<mapsto> 1.1, ''JPY'' \<mapsto> 160], UpdatedAt = scenario_now\<rparr>)"
    by (simp add: run_defs runes_defs scenario_defs FormatDate_scenario)
  show ?thesis
    using eur_written_gbp_failed [OF 1 2 3 4 5 6 7] t by (simp add: d)
qed

subsection \<open>The supported-currencies write\<close>

lemma FormatDate_not_dash: "FormatDate t \<noteq> ''-''"
proof -
  have "2 \<le> length (FormatDate t)"
    by (simp add: FormatDate_def)
  then show ?thesis by auto
qed

lemma loop_body_sim:
  assumes "clock e' = clock e" and "get_fails e' = get_fails e" and "provider e' = provider e"
    and "\<forall>h. L < length h \<longrightarrow> put_fails e' h = put_fails e h"
    and "L \<le> length (calls w)"
    and "calls w' = calls w"
    and "\<forall>k. k \<noteq> sck \<longrightarrow> table w' k = table w k"
    and "(c, d) \<noteq> sck"
  shows "fst (loop_body e' cfg d c (n, w')) = fst (loop_body e cfg d c (n, w)) \<and>
         calls (snd (loop_body e' cfg d c (n, w'))) = calls (snd (loop_body e cfg d c (n, w))) \<and>
         (\<forall>k. k \<noteq> sck \<longrightarrow>
            table (snd (loop_body e' cfg d c (n, w'))) k =
            table (snd (loop_body e cfg d c (n, w))) k) \<and>
         L \<le> length (calls (snd (loop_body e cfg d c (n, w))))"
  using assms
  by (auto simp: loop_body_def checkExistingExchangeRates_def fetchExchangeRates_def
          storeExchangeRates_def GetItem_def PutItem_def http_Get_def MarshalMap_key_def
          MarshalMap_record_def time_Now_def Let_def
        split: option.splits http_result.splits http_body.splits)


lemma for_range_sim:
  assumes "clock e' = clock e" and "get_fails e' = get_fails e" and "provider e' = provider e"
    and "\<forall>h. L < length h \<longrightarrow> put_fails e' h = put_fails e h"
    and "\<forall>c \<in> set cs. (c, d) \<noteq> sck"
  shows "L \<le> length (calls w) \<Longrightarrow> calls w' = calls w \<Longrightarrow>
         \<forall>k. k \<noteq> sck \<longrightarrow> table w' k = table w k \<Longrightarrow>
         fst (for_range e' cfg d cs (n, w')) = fst (for_range e cfg d cs (n, w)) \<and>
         calls (snd (for_range e' cfg d cs (n, w'))) = calls (snd (for_range e cfg d cs (n, w))) \<and>
         (\<forall>k. k \<noteq> sck \<longrightarrow>
            table (snd (for_range e' cfg d cs (n, w'))) k =
            table (snd (for_range e cfg d cs (n, w))) k)"
  using assms(5)
proof (induction cs arbitrary: n w w')
  case Nil
  then show ?case by simp
next
  case (Cons c cs)
  have cd: "(c, d) \<noteq> sck" using Cons.prems(4) by simp
  note step = loop_body_sim [OF assms(1-4) Cons.prems(1-3) cd, of cfg n]
  obtain m v where b: "loop_body e cfg d c (n, w) = (m, v)"
    by (cases "loop_body e cfg d c (n, w)")
  obtain m' v' where b': "loop_body e' cfg d c (n, w') = (m', v')"
    by (cases "loop_body e' cfg d c (n, w')")
  from step b b' have m: "m' = m" and v: "L \<le> length (calls v)" "calls v' = calls v"
    "\<forall>k. k \<noteq> sck \<longrightarrow> table v' k = table v k"
    by simp_all
  have "\<forall>c \<in> set cs. (c, d) \<noteq> sck" using Cons.prems(4) by simp
  from Cons.IH [OF v this, of m] show ?case
    by (simp add: b b' m)
qed

text \<open>
  C7. Two environments that differ at most in the answer to the first call of the
  invocation, the write of the supported-currencies record, give the same returned value,
  the same counts, the same sequence of calls and the same table everywhere but under
  that record's own key.
\<close>

theorem currencies_write_outcome_is_ignored:
  assumes "clock e' = clock e" and "get_fails e' = get_fails e" and "provider e' = provider e"
    and "\<forall>h. length h \<noteq> Suc (length (calls w)) \<longrightarrow> put_fails e' h = put_fails e h"
  shows "returned (handler e' cfg w) = returned (handler e cfg w) \<and>
         counts (handler e' cfg w) = counts (handler e cfg w) \<and>
         calls (after (handler e' cfg w)) = calls (after (handler e cfg w)) \<and>
         (\<forall>k. k \<noteq> (''SupportedCurrencies'', ''-'') \<longrightarrow>
            table (after (handler e' cfg w)) k = table (after (handler e cfg w)) k)"
proof -
  let ?d = "FormatDate (time_Now e w)"
  let ?z = "\<lparr>successCount = 0, errorCount = 0, skippedCount = 0\<rparr>"
  let ?w1 = "snd (storeSupportedCurrencies e cfg w)"
  let ?w1' = "snd (storeSupportedCurrencies e' cfg w)"
  have t: "time_Now e' w = time_Now e w"
    by (simp add: time_Now_def assms(1))
  have 1: "Suc (length (calls w)) \<le> length (calls ?w1)"
    and 2: "calls ?w1' = calls ?w1"
    and 3: "\<forall>k. k \<noteq> (''SupportedCurrencies'', ''-'') \<longrightarrow> table ?w1' k = table ?w1 k"
    by (simp_all add: storeSupportedCurrencies_def MarshalMap_currencies_def PutItem_def
          Let_def t)
  have 4: "\<forall>h. Suc (length (calls w)) < length h \<longrightarrow> put_fails e' h = put_fails e h"
    using assms(4) by simp
  have 5: "\<forall>c \<in> set (supportedCurrencies cfg). (c, ?d) \<noteq> (''SupportedCurrencies'', ''-'')"
    by (simp add: FormatDate_not_dash)
  note sim = for_range_sim [OF assms(1-3) 4 5 1 2 3, of cfg ?z]
  have c: "counts (handler e' cfg w) = counts (handler e cfg w)"
    using sim by (simp add: handler_counts t)
  have "returned (handler e' cfg w) = returned (handler e cfg w)"
    by (simp add: handler_returned c)
  with c sim show ?thesis
    by (simp add: handler_after t)
qed

theorem currencies_write_outcome_is_ignored_witness:
  "fst (storeSupportedCurrencies scenario_env scenario_config empty_world) = None \<and>
   fst (storeSupportedCurrencies (scenario_env\<lparr>put_fails := \<lambda>h. length h = 1\<rparr>)
          scenario_config empty_world) = Some CurrenciesStoreFailed \<and>
   counts (handler (scenario_env\<lparr>put_fails := \<lambda>h. length h = 1\<rparr>) scenario_config empty_world)
     = \<lparr>successCount = 1, errorCount = 1, skippedCount = 0\<rparr> \<and>
   returned (handler (scenario_env\<lparr>put_fails := \<lambda>h. length h = 1\<rparr>) scenario_config
     empty_world) = returned (handler scenario_env scenario_config empty_world)"
proof -
  let ?e' = "scenario_env\<lparr>put_fails := \<lambda>h. length h = 1\<rparr>"
  have a: "clock ?e' = clock scenario_env" "get_fails ?e' = get_fails scenario_env"
    "provider ?e' = provider scenario_env"
    by simp_all
  have b: "\<forall>h. length h \<noteq> Suc (length (calls empty_world)) \<longrightarrow>
             put_fails ?e' h = put_fails scenario_env h"
    by (simp add: scenario_env_def empty_world_def)
  have s: "fst (storeSupportedCurrencies scenario_env scenario_config empty_world) = None"
    "fst (storeSupportedCurrencies ?e' scenario_config empty_world) = Some CurrenciesStoreFailed"
    by (simp_all add: run_defs scenario_defs)
  show ?thesis
    using currencies_write_outcome_is_ignored [OF a b, of scenario_config] s
    by (simp add: scenario_counts)
qed

end
